theory Spec2Isabelle
  imports Complex_Main "HOL-Library.Word"
begin

unbundle bit_operations_syntax

section \<open>Benchmark wire protocol (internal/benchmark, protocol file)\<close>

text \<open>
  Bytes are 8-bit words. A Go \<^verbatim>\<open>string\<close> is an immutable byte sequence, so strings and
  \<^verbatim>\<open>[]byte\<close> are both byte lists; \<^verbatim>\<open>len\<close> is \<open>length\<close>. Fixed-width integers are
  words: \<^verbatim>\<open>int64\<close> and \<^verbatim>\<open>uint32\<close> fields are kept as their 64 and 32 bit patterns, which is
  what \<^verbatim>\<open>encoding/binary\<close> writes.

  An \<^verbatim>\<open>io.Reader\<close> is modelled as the list of bytes still to be read (a \<^verbatim>\<open>bytes.Buffer\<close> or
  \<^verbatim>\<open>bytes.Reader\<close>); a read returns the bytes taken and the rest. An \<^verbatim>\<open>io.Writer\<close> is
  modelled as a byte buffer whose \<^verbatim>\<open>Write\<close> always succeeds (\<^verbatim>\<open>bytes.Buffer\<close>, and the
  \<^verbatim>\<open>limitedBuffer\<close> of \<^verbatim>\<open>WriteMessage\<close>), so an encoder is the byte list it appends and
  the write-error returns of the encoders cannot be taken.
\<close>

type_synonym byte = "8 word"
type_synonym u16 = "16 word"
type_synonym u32 = "32 word"
type_synonym i64 = "64 word"
type_synonym gostring = "byte list"

datatype error = EOF | ErrUnexpectedEOF

text \<open>
  \<^verbatim>\<open>io.ReadFull(r, buf)\<close> with \<open>n = len(buf)\<close>: nothing is read for an empty buffer;
  \<^verbatim>\<open>io.EOF\<close> when no byte is left; \<^verbatim>\<open>io.ErrUnexpectedEOF\<close> when some but fewer than \<open>n\<close>
  bytes are left.
\<close>

definition ReadFull :: "nat \<Rightarrow> byte list \<Rightarrow> error + (byte list \<times> byte list)" where
  "ReadFull n r =
     (if n = 0 then Inr ([], r)
      else if r = [] then Inl EOF
      else if length r < n then Inl ErrUnexpectedEOF
      else Inr (take n r, drop n r))"

text \<open>
  \<^verbatim>\<open>binary.BigEndian\<close>: \<open>be_bytes n v\<close> are the low \<open>n\<close> bytes of \<open>v\<close>, most significant
  first (\<^verbatim>\<open>b[0] = byte(v >> 8*(n-1))\<close>, ..., \<^verbatim>\<open>b[n-1] = byte(v)\<close>); \<open>be_acc\<close> reads
  them back (\<^verbatim>\<open>uint(b[0])<<8*(n-1) | ... | uint(b[n-1])\<close>).
\<close>

fun be_bytes :: "nat \<Rightarrow> 'a::len word \<Rightarrow> byte list" where
  "be_bytes 0 v = []"
| "be_bytes (Suc n) v = ucast (drop_bit (8 * n) v) # be_bytes n v"

fun be_acc :: "'a::len word \<Rightarrow> byte list \<Rightarrow> 'a word" where
  "be_acc acc [] = acc"
| "be_acc acc (b # bs) = be_acc (push_bit 8 acc OR ucast b) bs"

definition PutUint8 :: "byte \<Rightarrow> byte list" where
  "PutUint8 v = be_bytes 1 v"

definition PutUint16 :: "u16 \<Rightarrow> byte list" where
  "PutUint16 v = be_bytes 2 v"

definition PutUint32 :: "u32 \<Rightarrow> byte list" where
  "PutUint32 v = be_bytes 4 v"

definition PutUint64 :: "i64 \<Rightarrow> byte list" where
  "PutUint64 v = be_bytes 8 v"

definition Uint8 :: "byte list \<Rightarrow> byte" where
  "Uint8 bs = be_acc 0 bs"

definition Uint16 :: "byte list \<Rightarrow> u16" where
  "Uint16 bs = be_acc 0 bs"

definition Uint32 :: "byte list \<Rightarrow> u32" where
  "Uint32 bs = be_acc 0 bs"

definition Uint64 :: "byte list \<Rightarrow> i64" where
  "Uint64 bs = be_acc 0 bs"

text \<open>Message types (\<^verbatim>\<open>type MessageType byte\<close>) and their constants.\<close>

type_synonym MessageType = byte

definition MsgStart :: MessageType where "MsgStart = 0x30"



definition DirectionDownload :: gostring where
  "DirectionDownload = [0x64, 0x6F, 0x77, 0x6E, 0x6C, 0x6F, 0x61, 0x64]"

text \<open>
  The \<^verbatim>\<open>Message\<close> interface and the seven structs that implement it. The constructor is
  the dynamic type of the value; its arguments are the struct fields in declaration order:
  \<^verbatim>\<open>StartMessage{Size, Direction}\<close>, \<^verbatim>\<open>AckMessage{Accepted, Error}\<close>,
  \<^verbatim>\<open>DataMessage{SeqNum, Data}\<close>, \<^verbatim>\<open>PingMessage{SeqNum, Timestamp}\<close>,
  \<^verbatim>\<open>PongMessage{SeqNum, PingTimestamp}\<close>,
  \<^verbatim>\<open>CompleteMessage{BytesTransferred, DurationNs}\<close>, \<^verbatim>\<open>ErrorMessage{Error}\<close>.
\<close>

datatype Message =
    StartMessage i64 gostring
  | AckMessage bool gostring
  | DataMessage u32 "byte list"
  | PingMessage u32 i64
  | PongMessage u32 i64
  | CompleteMessage i64 i64
  | ErrorMessage gostring

text \<open>\<^verbatim>\<open>writeString\<close>: \<^verbatim>\<open>uint16(len(s))\<close> (the conversion wraps), then all bytes of \<open>s\<close>.\<close>

definition writeString :: "gostring \<Rightarrow> byte list" where
  "writeString s = PutUint16 (of_nat (length s)) @ s"

definition readString :: "byte list \<Rightarrow> error + (gostring \<times> byte list)" where
  "readString r =
     (case ReadFull 2 r of
        Inl e \<Rightarrow> Inl e
      | Inr (b, r1) \<Rightarrow>
          (if Uint16 b = 0 then Inr ([], r1)
           else (case ReadFull (unat (Uint16 b)) r1 of
                   Inl e \<Rightarrow> Inl e
                 | Inr (data, r2) \<Rightarrow> Inr (data, r2))))"

text \<open>The \<^verbatim>\<open>Encode\<close> method of each message struct.\<close>

fun Encode :: "Message \<Rightarrow> byte list" where
  "Encode (StartMessage sz dir) = PutUint64 sz @ writeString dir"
| "Encode (AckMessage accepted err) =
     PutUint8 (if accepted then 1 else 0) @ writeString err"
| "Encode (DataMessage seq data) =
     PutUint32 seq @ PutUint32 (of_nat (length data)) @ data"
| "Encode (PingMessage seq ts) = PutUint32 seq @ PutUint64 ts"
| "Encode (PongMessage seq ts) = PutUint32 seq @ PutUint64 ts"
| "Encode (CompleteMessage n d) = PutUint64 n @ PutUint64 d"
| "Encode (ErrorMessage err) = writeString err"

text \<open>
  The \<^verbatim>\<open>Decode\<close> method of each message struct. The first argument is the receiver: its
  dynamic type selects the method, and a successful call overwrites every field. The
  result is the error, or the decoded message with the unread rest of the input. (A failed
  \<^verbatim>\<open>Decode\<close> may leave the receiver partly overwritten; only the error is returned here.)
\<close>

fun Decode :: "Message \<Rightarrow> byte list \<Rightarrow> error + (Message \<times> byte list)" where
  "Decode (StartMessage _ _) r =
     (case ReadFull 8 r of
        Inl e \<Rightarrow> Inl e
      | Inr (b, r1) \<Rightarrow>
          (case readString r1 of
             Inl e \<Rightarrow> Inl e
           | Inr (dir, r2) \<Rightarrow> Inr (StartMessage (Uint64 b) dir, r2)))"
| "Decode (AckMessage _ _) r =
     (case ReadFull 1 r of
        Inl e \<Rightarrow> Inl e
      | Inr (b, r1) \<Rightarrow>
          (case readString r1 of
             Inl e \<Rightarrow> Inl e
           | Inr (err, r2) \<Rightarrow> Inr (AckMessage (Uint8 b \<noteq> 0) err, r2)))"
| "Decode (DataMessage _ _) r =
     (case ReadFull 4 r of
        Inl e \<Rightarrow> Inl e
      | Inr (b, r1) \<Rightarrow>
          (case ReadFull 4 r1 of
             Inl e \<Rightarrow> Inl e
           | Inr (l, r2) \<Rightarrow>
               (case ReadFull (unat (Uint32 l)) r2 of
                  Inl e \<Rightarrow> Inl e
                | Inr (data, r3) \<Rightarrow> Inr (DataMessage (Uint32 b) data, r3))))"
| "Decode (PingMessage _ _) r =
     (case ReadFull 4 r of
        Inl e \<Rightarrow> Inl e
      | Inr (b, r1) \<Rightarrow>
          (case ReadFull 8 r1 of
             Inl e \<Rightarrow> Inl e
           | Inr (t, r2) \<Rightarrow> Inr (PingMessage (Uint32 b) (Uint64 t), r2)))"
| "Decode (PongMessage _ _) r =
     (case ReadFull 4 r of
        Inl e \<Rightarrow> Inl e
      | Inr (b, r1) \<Rightarrow>
          (case ReadFull 8 r1 of
             Inl e \<Rightarrow> Inl e
           | Inr (t, r2) \<Rightarrow> Inr (PongMessage (Uint32 b) (Uint64 t), r2)))"
| "Decode (CompleteMessage _ _) r =
     (case ReadFull 8 r of
        Inl e \<Rightarrow> Inl e
      | Inr (b, r1) \<Rightarrow>
          (case ReadFull 8 r1 of
             Inl e \<Rightarrow> Inl e
           | Inr (d, r2) \<Rightarrow> Inr (CompleteMessage (Uint64 b) (Uint64 d), r2)))"
| "Decode (ErrorMessage _) r =
     (case readString r of
        Inl e \<Rightarrow> Inl e
      | Inr (err, r1) \<Rightarrow> Inr (ErrorMessage err, r1))"

text \<open>
  \<^verbatim>\<open>ReadMessage\<close>: one type byte, a 32-bit big-endian length, then that many payload
  bytes. The result is the error, or the type, the payload and the unread rest.
\<close>

definition ReadMessage :: "byte list \<Rightarrow> error + (MessageType \<times> byte list \<times> byte list)" where
  "ReadMessage r =
     (case ReadFull 1 r of
        Inl e \<Rightarrow> Inl e
      | Inr (t, r1) \<Rightarrow>
          (case ReadFull 4 r1 of
             Inl e \<Rightarrow> Inl e
           | Inr (l, r2) \<Rightarrow>
               (case ReadFull (unat (Uint32 l)) r2 of
                  Inl e \<Rightarrow> Inl e
                | Inr (data, r3) \<Rightarrow> Inr (Uint8 t, data, r3))))"

text \<open>
  \<^verbatim>\<open>WriteMessage\<close>: the message is encoded into a temporary buffer, then the type byte,
  \<^verbatim>\<open>uint32(len(temp.buf))\<close> (the conversion wraps) and the buffer are written.
\<close>

definition WriteMessage :: "MessageType \<Rightarrow> Message \<Rightarrow> byte list" where
  "WriteMessage msgType msg =
     PutUint8 msgType @ PutUint32 (of_nat (length (Encode msg))) @ Encode msg"

text \<open>Two messages have the same dynamic type.\<close>

fun sameType :: "Message \<Rightarrow> Message \<Rightarrow> bool" where
  "sameType (StartMessage _ _) (StartMessage _ _) = True"
| "sameType (AckMessage _ _) (AckMessage _ _) = True"
| "sameType (DataMessage _ _) (DataMessage _ _) = True"
| "sameType (PingMessage _ _) (PingMessage _ _) = True"
| "sameType (PongMessage _ _) (PongMessage _ _) = True"
| "sameType (CompleteMessage _ _) (CompleteMessage _ _) = True"
| "sameType (ErrorMessage _) (ErrorMessage _) = True"
| "sameType _ _ = False"

text \<open>
  The messages whose length fields hold their lengths: strings shorter than \<open>2^16\<close> bytes
  (the \<^verbatim>\<open>u16\<close> prefix) and data shorter than \<open>2^32\<close> bytes (the \<^verbatim>\<open>u32\<close> prefix).
\<close>

fun fitsWire :: "Message \<Rightarrow> bool" where
  "fitsWire (StartMessage _ dir) \<longleftrightarrow> length dir < 2 ^ 16"
| "fitsWire (AckMessage _ err) \<longleftrightarrow> length err < 2 ^ 16"
| "fitsWire (DataMessage _ data) \<longleftrightarrow> length data < 2 ^ 32"
| "fitsWire (PingMessage _ _) \<longleftrightarrow> True"
| "fitsWire (PongMessage _ _) \<longleftrightarrow> True"
| "fitsWire (CompleteMessage _ _) \<longleftrightarrow> True"
| "fitsWire (ErrorMessage err) \<longleftrightarrow> length err < 2 ^ 16"

section \<open>Time, durations and floating point\<close>

text \<open>
  A \<^verbatim>\<open>time.Time\<close> is an instant in nanoseconds on one time line, and a
  \<^verbatim>\<open>time.Duration\<close> is an \<^verbatim>\<open>int64\<close> count of nanoseconds; both are integers here, with the
  \<^verbatim>\<open>int64\<close> range written out where the source can leave it. \<^verbatim>\<open>float64\<close> values are
  exact rationals: rounding is not modelled, and neither are infinities or NaN.
\<close>

type_synonym Time = int
type_synonym Duration = int
type_synonym float64 = rat

definition minDuration :: Duration where "minDuration = - (2 ^ 63)"
definition maxDuration :: Duration where "maxDuration = 2 ^ 63 - 1"

definition Millisecond :: Duration where "Millisecond = 1000000"
definition Second :: Duration where "Second = 1000000000"
definition Minute :: Duration where "Minute = 60 * Second"

text \<open>Two's-complement wrap-around of \<^verbatim>\<open>int64\<close> arithmetic.\<close>

definition wrap64 :: "int \<Rightarrow> int" where
  "wrap64 x = (x + 2 ^ 63) mod 2 ^ 64 - 2 ^ 63"

text \<open>\<^verbatim>\<open>t.Sub(u)\<close>: the difference, saturated at the smallest and largest duration.\<close>

definition Time_Sub :: "Time \<Rightarrow> Time \<Rightarrow> Duration" where
  "Time_Sub t u =
     (if t - u < minDuration then minDuration
      else if maxDuration < t - u then maxDuration
      else t - u)"

text \<open>\<^verbatim>\<open>d.Seconds()\<close>.\<close>

definition Seconds :: "Duration \<Rightarrow> float64" where
  "Seconds d = of_int d / 1000000000"

text \<open>
  The conversion \<^verbatim>\<open>time.Duration(x)\<close> of a \<^verbatim>\<open>float64\<close>: the fraction is discarded
  (truncation towards zero). When the truncated value is not an \<^verbatim>\<open>int64\<close>, Go leaves the
  result to the implementation (amd64 gives \<open>- 2^63\<close>, arm64 saturates); \<open>ovf\<close> is that
  result.
\<close>

definition truncate_float :: "float64 \<Rightarrow> int" where
  "truncate_float x = (if 0 \<le> x then \<lfloor>x\<rfloor> else \<lceil>x\<rceil>)"

definition Duration_of_float :: "Duration \<Rightarrow> float64 \<Rightarrow> Duration" where
  "Duration_of_float ovf x =
     (if minDuration \<le> truncate_float x \<and> truncate_float x \<le> maxDuration
      then truncate_float x else ovf)"

section \<open>Token bucket (chaos file of internal/benchmark)\<close>

record TokenBucket =
  rate :: float64
  tokens :: float64
  maxTokens :: float64
  lastUpdate :: Time

text \<open>\<^verbatim>\<open>NewTokenBucket(bytesPerSec)\<close>; \<open>now\<close> is the value of \<^verbatim>\<open>time.Now()\<close>.\<close>

definition NewTokenBucket :: "Time \<Rightarrow> int \<Rightarrow> TokenBucket" where
  "NewTokenBucket now bytesPerSec =
     \<lparr>rate = of_int bytesPerSec, tokens = of_int bytesPerSec,
      maxTokens = of_int bytesPerSec, lastUpdate = now\<rparr>"

text \<open>
  \<^verbatim>\<open>tb.Take(n)\<close>; \<open>now\<close> is the value of \<^verbatim>\<open>time.Now()\<close> inside the call. The result is
  the returned wait and the bucket after the call. With a zero rate the quotient
  \<^verbatim>\<open>deficit / tb.rate\<close> is infinite, so its conversion is the out-of-range result \<open>ovf\<close>.
\<close>

definition Take :: "Duration \<Rightarrow> Time \<Rightarrow> int \<Rightarrow> TokenBucket \<Rightarrow> Duration \<times> TokenBucket" where
  "Take ovf now n tb =
     (let elapsed = Seconds (Time_Sub now (lastUpdate tb));
          refilled = tokens tb + elapsed * rate tb;
          capped = (if maxTokens tb < refilled then maxTokens tb else refilled);
          needed = of_int n
      in if needed \<le> capped
         then (0, tb\<lparr>lastUpdate := now, tokens := capped - needed\<rparr>)
         else (let deficit = needed - capped;
                   waitTime = (if rate tb = 0 then ovf
                               else Duration_of_float ovf (deficit / rate tb * of_int Second))
               in (waitTime, tb\<lparr>lastUpdate := now, tokens := 0\<rparr>)))"




section \<open>Chaos writer (chaos file of internal/benchmark)\<close>

record ChaosConfig =
  PacketLossPercent :: float64
  Latency :: Duration
  Jitter :: Duration
  BandwidthBps :: int

record ChaosWriterStats =
  TotalWrites :: i64
  DroppedWrites :: i64
  TotalBytes :: i64
  ActualBytes :: i64

text \<open>
  The writer's own state. Its sink \<^verbatim>\<open>w\<close> and its random source \<^verbatim>\<open>rng\<close> are outside the
  model: what they answer during one \<^verbatim>\<open>Write\<close> is given by a \<open>WriteEnv\<close>.
\<close>

record ChaosWriter =
  cfg :: ChaosConfig
  bucket :: "TokenBucket option"
  stats :: ChaosWriterStats

text \<open>
  The environment of one \<^verbatim>\<open>Write\<close> call: the value of \<^verbatim>\<open>c.rng.Float64()\<close>, the value of
  \<^verbatim>\<open>c.rng.Int63n(n)\<close> for a positive \<open>n\<close>, the value of \<^verbatim>\<open>time.Now()\<close> inside
  \<^verbatim>\<open>Take\<close>, and the result \<^verbatim>\<open>(n, err)\<close> of \<^verbatim>\<open>c.w.Write(p)\<close>, each used only if the call is
  made.
\<close>

record 'e WriteEnv =
  float64Draw :: float64
  int63nDraw :: "int \<Rightarrow> int"
  clock :: Time
  sinkResult :: "int \<times> 'e option"

text \<open>What a \<^verbatim>\<open>Write\<close> does to the outside, in order.\<close>

datatype effect = Sleep Duration | UnderlyingWrite "byte list"

datatype panic = Panic

definition NewChaosWriterWithRng :: "Time \<Rightarrow> ChaosConfig \<Rightarrow> ChaosWriter" where
  "NewChaosWriterWithRng now c =
     \<lparr>cfg = c,
      bucket = (if 0 < BandwidthBps c then Some (NewTokenBucket now (BandwidthBps c)) else None),
      stats = \<lparr>TotalWrites = 0, DroppedWrites = 0, TotalBytes = 0, ActualBytes = 0\<rparr>\<rparr>"

text \<open>Step 1 of \<^verbatim>\<open>Write\<close>: the loss decision for the draw \<open>u\<close>.\<close>

definition lossDrop :: "ChaosConfig \<Rightarrow> float64 \<Rightarrow> bool" where
  "lossDrop c u \<longleftrightarrow> 0 < PacketLossPercent c \<and> u * 100 < PacketLossPercent c"

text \<open>Step 2 of \<^verbatim>\<open>Write\<close>: the wait of the bucket, if there is one, and the bucket after it.\<close>

definition bandwidthWait ::
  "Duration \<Rightarrow> Time \<Rightarrow> int \<Rightarrow> TokenBucket option \<Rightarrow> Duration \<times> TokenBucket option" where
  "bandwidthWait ovf now n b =
     (case b of
        None \<Rightarrow> (0, None)
      | Some tb \<Rightarrow> (fst (Take ovf now n tb), Some (snd (Take ovf now n tb))))"

text \<open>
  Step 3 of \<^verbatim>\<open>Write\<close>: the delay to sleep (none when it is not positive).
  \<^verbatim>\<open>Int63n\<close> panics when its argument is not positive, which happens when
  \<^verbatim>\<open>2 * int64(c.cfg.Jitter)\<close> wraps.
\<close>

definition latencyDelay :: "ChaosConfig \<Rightarrow> (int \<Rightarrow> int) \<Rightarrow> panic + Duration" where
  "latencyDelay c int63n =
     (if 0 < Latency c \<or> 0 < Jitter c then
        (if 0 < Jitter c then
           (let jitterRange = wrap64 (2 * Jitter c)
            in if jitterRange \<le> 0 then Inl Panic
               else (let jitterOffset = wrap64 (int63n jitterRange - Jitter c);
                         delay = wrap64 (Latency c + jitterOffset)
                     in Inr (if delay < 0 then 0 else delay)))
         else Inr (Latency c))
      else Inr 0)"

definition sleepIfPositive :: "Duration \<Rightarrow> effect list" where
  "sleepIfPositive d = (if 0 < d then [Sleep d] else [])"

text \<open>
  \<^verbatim>\<open>c.Write(p)\<close>. The result is a panic, or the returned \<^verbatim>\<open>(n, err)\<close>, the writer after the
  call and the effects of the call in order.
\<close>

definition ChaosWriter_Write ::
  "Duration \<Rightarrow> 'e WriteEnv \<Rightarrow> byte list \<Rightarrow> ChaosWriter
     \<Rightarrow> panic + ((int \<times> 'e option) \<times> ChaosWriter \<times> effect list)" where
  "ChaosWriter_Write ovf env p c =
     (let s1 = (stats c)\<lparr>TotalWrites := TotalWrites (stats c) + 1,
                          TotalBytes := TotalBytes (stats c) + of_nat (length p)\<rparr>
      in if lossDrop (cfg c) (float64Draw env)
         then Inr ((int (length p), None),
                   c\<lparr>stats := s1\<lparr>DroppedWrites := DroppedWrites s1 + 1\<rparr>\<rparr>,
                   [])
         else (let bw = bandwidthWait ovf (clock env) (int (length p)) (bucket c)
               in case latencyDelay (cfg c) (int63nDraw env) of
                    Inl pn \<Rightarrow> Inl pn
                  | Inr delay \<Rightarrow>
                      Inr (sinkResult env,
                           c\<lparr>bucket := snd bw,
                             stats := s1\<lparr>ActualBytes :=
                                          ActualBytes s1 + of_int (fst (sinkResult env))\<rparr>\<rparr>,
                           sleepIfPositive (fst bw) @ sleepIfPositive delay
                           @ [UnderlyingWrite p])))"

section \<open>Benchmark result (internal/benchmark/benchmark.go)\<close>

record Result =
  ID :: string
  Timestamp :: Time
  LocalPeer :: string
  RemotePeer :: string
  Direction :: string
  RequestedSize :: int
  TransferredSize :: int
  DurationMs :: int
  ThroughputBps :: float64
  ThroughputMbps :: float64
  LatencyMinMs :: float64
  LatencyMaxMs :: float64
  LatencyAvgMs :: float64
  Success :: bool
  Error :: string
  Chaos :: "ChaosConfig option"

text \<open>The divisor \<^verbatim>\<open>durationSec\<close> of \<^verbatim>\<open>CalculateThroughput\<close>.\<close>

definition durationSec :: "Result \<Rightarrow> float64" where
  "durationSec r = of_int (DurationMs r) / 1000"

definition CalculateThroughput :: "Result \<Rightarrow> Result" where
  "CalculateThroughput r =
     (if 0 < DurationMs r
      then r\<lparr>ThroughputBps := of_int (TransferredSize r) / durationSec r,
             ThroughputMbps := of_int (TransferredSize r) / durationSec r * 8 / 1000000\<rparr>
      else r)"

section \<open>Online flag of the admin overview (internal/coord/admin.go)\<close>

definition onlineThreshold :: Duration where
  "onlineThreshold = 2 * Minute"

text \<open>\<^verbatim>\<open>online := now.Sub(info.peer.LastSeen) < onlineThreshold\<close> in \<^verbatim>\<open>handleAdminOverview\<close>.\<close>

definition online :: "Time \<Rightarrow> Time \<Rightarrow> bool" where
  "online now LastSeen \<longleftrightarrow> Time_Sub now LastSeen < onlineThreshold"

section \<open>Peer route lookup with retry (internal/peer/ssh.go)\<close>

text \<open>The fields of a directory peer entry that \<^verbatim>\<open>ensurePeerRoute\<close> reads.\<close>

record Peer =
  Name :: string
  MeshIP :: string
  PublicKey :: string

text \<open>
  The calls \<^verbatim>\<open>ensurePeerRoute\<close> makes on its collaborators, in order:
  \<^verbatim>\<open>m.client.ListPeers()\<close>, \<^verbatim>\<open>time.Sleep(d)\<close>, \<^verbatim>\<open>m.GetCachedPeerMeshIP(name)\<close>,
  \<^verbatim>\<open>m.router.AddRoute(meshIP, name)\<close>, \<^verbatim>\<open>m.CachePeerMeshIP(name, meshIP)\<close> and
  \<^verbatim>\<open>m.SSHTransport.AddAuthorizedKey(key)\<close>. Logging is left out.
\<close>

datatype 'k call =
    ListPeersCall
  | SleepCall Duration
  | GetCachedCall string
  | AddRouteCall string string
  | CachePeerCall string string
  | AddAuthorizedKeyCall 'k

text \<open>
  The node as \<^verbatim>\<open>ensurePeerRoute\<close> sees it. The directory client, the mesh-IP cache, the
  router, the SSH transport and \<^verbatim>\<open>config.DecodePublicKey\<close> are not part of the function:
  \<open>client\<close> is \<open>None\<close> for a nil client and otherwise gives the result of the \<open>i\<close>-th
  \<^verbatim>\<open>ListPeers\<close> call (an error or the peer list); \<open>GetCachedPeerMeshIP\<close> is the cache
  lookup; \<open>SSHTransport\<close> says whether the transport is set; \<open>DecodePublicKey\<close> is the key
  decoder (an error or the key).
\<close>

record ('e, 'k) MeshNode =
  client :: "(nat \<Rightarrow> 'e + Peer list) option"
  GetCachedPeerMeshIP :: "string \<Rightarrow> string option"
  SSHTransport :: bool
  DecodePublicKey :: "string \<Rightarrow> 'e + 'k"

definition maxRetries :: nat where "maxRetries = 5"

text \<open>How the retry loop ends: by the \<^verbatim>\<open>return\<close> inside it, or by leaving it.\<close>

datatype loop_exit = Returned string | LeftLoop

text \<open>The body of \<^verbatim>\<open>if peer.Name == peerName\<close>: route, cache, and the key if there is one.\<close>

definition foundPeer :: "('e, 'k) MeshNode \<Rightarrow> Peer \<Rightarrow> 'k call list" where
  "foundPeer m peer =
     [AddRouteCall (MeshIP peer) (Name peer), CachePeerCall (Name peer) (MeshIP peer)]
     @ (if PublicKey peer \<noteq> [] \<and> SSHTransport m
        then (case DecodePublicKey m (PublicKey peer) of
                Inl err \<Rightarrow> []
              | Inr pubKey \<Rightarrow> [AddAuthorizedKeyCall pubKey])
        else [])"

definition withCalls :: "'k call list \<Rightarrow> loop_exit \<times> 'k call list \<Rightarrow> loop_exit \<times> 'k call list" where
  "withCalls cs r = (fst r, cs @ snd r)"

text \<open>
  The loop \<^verbatim>\<open>for attempt := 1; attempt <= maxRetries; attempt++\<close> from the given attempt
  and backoff on.
\<close>

function retryLoop ::
  "('e, 'k) MeshNode \<Rightarrow> (nat \<Rightarrow> 'e + Peer list) \<Rightarrow> string \<Rightarrow> nat \<Rightarrow> Duration
     \<Rightarrow> loop_exit \<times> 'k call list" where
  "retryLoop m ListPeers peerName attempt backoff =
     (if attempt \<le> maxRetries then
        (case ListPeers attempt of
           Inl err \<Rightarrow>
             (if attempt < maxRetries
              then withCalls [ListPeersCall, SleepCall backoff]
                     (retryLoop m ListPeers peerName (attempt + 1) (wrap64 (backoff * 2)))
              else withCalls [ListPeersCall]
                     (retryLoop m ListPeers peerName (attempt + 1) backoff))
         | Inr peers \<Rightarrow>
             (case find (\<lambda>peer. Name peer = peerName) peers of
                Some peer \<Rightarrow> (Returned (MeshIP peer), ListPeersCall # foundPeer m peer)
              | None \<Rightarrow> (LeftLoop, [ListPeersCall])))
      else (LeftLoop, []))"
  by pat_completeness auto
termination
  by (relation "measure (\<lambda>(m, ListPeers, peerName, attempt, backoff). maxRetries + 1 - attempt)")
     auto

declare retryLoop.simps [simp del]

text \<open>
  The calls of \<open>j\<close> failed attempts that are each followed by a sleep, the first sleep being
  \<open>b\<close> and each later one twice the one before.
\<close>

fun failedAttempts :: "nat \<Rightarrow> Duration \<Rightarrow> 'k call list" where
  "failedAttempts 0 b = []"
| "failedAttempts (Suc j) b = ListPeersCall # SleepCall b # failedAttempts j (b * 2)"

text \<open>The cache fallback, used without a client and after the loop.\<close>

definition fromCache :: "('e, 'k) MeshNode \<Rightarrow> string \<Rightarrow> string \<times> 'k call list" where
  "fromCache m peerName =
     (case GetCachedPeerMeshIP m peerName of
        Some meshIP \<Rightarrow> (meshIP, [GetCachedCall peerName, AddRouteCall meshIP peerName])
      | None \<Rightarrow> ([], [GetCachedCall peerName]))"

text \<open>\<^verbatim>\<open>m.ensurePeerRoute(peerName)\<close>: the returned mesh IP and the calls made, in order.\<close>

definition ensurePeerRoute :: "('e, 'k) MeshNode \<Rightarrow> string \<Rightarrow> string \<times> 'k call list" where
  "ensurePeerRoute m peerName =
     (case client m of
        None \<Rightarrow> fromCache m peerName
      | Some ListPeers \<Rightarrow>
          (case retryLoop m ListPeers peerName 1 (500 * Millisecond) of
             (Returned meshIP, calls) \<Rightarrow> (meshIP, calls)
           | (LeftLoop, calls) \<Rightarrow>
               (fst (fromCache m peerName), calls @ snd (fromCache m peerName))))"

section \<open>Concrete inputs\<close>

text \<open>
  Inputs on which the properties below are evaluated: a benchmark result, a chaos
  configuration with loss, latency and a bandwidth limit, the all-zero configuration, a
  directory entry, and a node whose cache knows the peer \<^verbatim>\<open>bob\<close>, whose SSH transport
  is set and whose key decoder accepts every key.
\<close>

definition exampleResult :: Result where
  "exampleResult = \<lparr>ID = ''b1'', Timestamp = 0, LocalPeer = ''alice'', RemotePeer = ''bob'',
      Direction = ''upload'', RequestedSize = 1000, TransferredSize = 1000,
      DurationMs = 2000, ThroughputBps = 0, ThroughputMbps = 0, LatencyMinMs = 1,
      LatencyMaxMs = 3, LatencyAvgMs = 2, Success = True, Error = [], Chaos = None\<rparr>"


definition zeroConfig :: ChaosConfig where
  "zeroConfig = \<lparr>PacketLossPercent = 0, Latency = 0, Jitter = 0, BandwidthBps = 0\<rparr>"

definition peerBob :: Peer where
  "peerBob = \<lparr>Name = ''bob'', MeshIP = ''10.99.0.2'', PublicKey = ''key''\<rparr>"

definition exampleNode :: "(nat \<Rightarrow> unit + Peer list) option \<Rightarrow> (unit, string) MeshNode" where
  "exampleNode c = \<lparr>client = c, GetCachedPeerMeshIP = [''bob'' \<mapsto> ''10.99.0.7''],
             SSHTransport = True, DecodePublicKey = Inr\<rparr>"

section \<open>Properties of the wire protocol\<close>

lemma be_step:
  "push_bit k (push_bit 8 acc OR ucast (ucast (drop_bit k v) :: byte)) OR take_bit k v
     = push_bit (k + 8) acc OR take_bit (k + 8) (v :: 'a::len word)"
proof (rule bit_word_eqI)
  fix n assume "n < LENGTH('a)"
  then show "bit (push_bit k (push_bit 8 acc OR ucast (ucast (drop_bit k v) :: byte)) OR take_bit k v) n
     = bit (push_bit (k + 8) acc OR take_bit (k + 8) v) n"
    by (cases "k \<le> n")
       (auto simp add: bit_push_bit_iff bit_or_iff bit_take_bit_iff bit_ucast_iff bit_drop_bit_eq)
qed

lemma be_acc_bytes:
  "be_acc acc (be_bytes n v) = push_bit (8 * n) acc OR take_bit (8 * n) v"
proof (induction n arbitrary: acc)
  case 0
  show ?case by simp
next
  case (Suc n)
  have "8 * Suc n = 8 * n + 8" by simp
  then show ?case using Suc be_step [of "8 * n" acc v] by (simp add: add.commute)
qed

lemma length_be_bytes [simp]: "length (be_bytes n v) = n"
  by (induction n) auto

lemma Uint8_Put [simp]: "Uint8 (PutUint8 v) = v"
  by (simp add: Uint8_def PutUint8_def be_acc_bytes take_bit_word_eq_self del: be_bytes.simps)
lemma Uint16_Put [simp]: "Uint16 (PutUint16 v) = v"
  by (simp add: Uint16_def PutUint16_def be_acc_bytes take_bit_word_eq_self del: be_bytes.simps)
lemma Uint32_Put [simp]: "Uint32 (PutUint32 v) = v"
  by (simp add: Uint32_def PutUint32_def be_acc_bytes take_bit_word_eq_self del: be_bytes.simps)
lemma Uint64_Put [simp]: "Uint64 (PutUint64 v) = v"
  by (simp add: Uint64_def PutUint64_def be_acc_bytes take_bit_word_eq_self del: be_bytes.simps)

lemma length_Put [simp]:
  "length (PutUint8 a) = 1" "length (PutUint16 b) = 2"
  "length (PutUint32 c) = 4" "length (PutUint64 d) = 8"
  by (simp_all add: PutUint8_def PutUint16_def PutUint32_def PutUint64_def del: be_bytes.simps)

lemma ReadFull_append: "length a = n \<Longrightarrow> ReadFull n (a @ rest) = Inr (a, rest)"
  by (auto simp: ReadFull_def)

lemma readString_writeString:
  assumes "length s < 2 ^ 16"
  shows "readString (writeString s @ rest) = Inr (s, rest)"
proof -
  have u: "unat (of_nat (length s) :: u16) = length s"
    using assms by (simp add: unat_of_nat)
  have z: "(of_nat (length s) :: u16) = 0 \<longleftrightarrow> s = []"
  proof
    assume "(of_nat (length s) :: u16) = 0"
    then have "unat (of_nat (length s) :: u16) = 0" by simp
    with u show "s = []" by simp
  next
    assume "s = []"
    then show "(of_nat (length s) :: u16) = 0" by simp
  qed
  show ?thesis
    by (simp add: readString_def writeString_def ReadFull_append u z)
qed


lemma unat_len32: "length d < 2 ^ 32 \<Longrightarrow> unat (of_nat (length d) :: u32) = length d"
  by (simp add: unat_of_nat)

lemma ReadMessage_frame:
  "length l = 4 \<Longrightarrow> length d = unat (Uint32 l) \<Longrightarrow>
   ReadMessage (t # l @ d @ rest) = Inr (t, d, rest)"
  using ReadFull_append [of "[t]" 1 "l @ d @ rest"] ReadFull_append [of l 4 "d @ rest"]
        ReadFull_append [of d "unat (Uint32 l)" rest]
  by (simp add: ReadMessage_def Uint8_def)

lemma ReadMessage_WriteMessage:
  "length (Encode m) < 2 ^ 32 \<Longrightarrow>
   ReadMessage (WriteMessage t m @ rest) = Inr (t, Encode m, rest)"
  using ReadMessage_frame [of "PutUint32 (of_nat (length (Encode m)))" "Encode m" t rest]
  by (simp add: WriteMessage_def PutUint8_def unat_len32)

lemma Decode_Encode:
  assumes "fitsWire m" and "sameType m0 m"
  shows "Decode m0 (Encode m @ rest) = Inr (m, rest)"
proof (cases m)
  case (StartMessage sz dir)
  then obtain a b where "m0 = StartMessage a b" using assms(2) by (cases m0) auto
  then show ?thesis using StartMessage assms(1)
    by (simp add: ReadFull_append readString_writeString)
next
  case (AckMessage acc err)
  then obtain a b where "m0 = AckMessage a b" using assms(2) by (cases m0) auto
  then show ?thesis using AckMessage assms(1)
    by (simp add: ReadFull_append readString_writeString)
next
  case (DataMessage sq d)
  then obtain a b where "m0 = DataMessage a b" using assms(2) by (cases m0) auto
  then show ?thesis using DataMessage assms(1)
    by (simp add: ReadFull_append unat_len32)
next
  case (PingMessage sq ts)
  then obtain a b where "m0 = PingMessage a b" using assms(2) by (cases m0) auto
  then show ?thesis using PingMessage by (simp add: ReadFull_append)
next
  case (PongMessage sq ts)
  then obtain a b where "m0 = PongMessage a b" using assms(2) by (cases m0) auto
  then show ?thesis using PongMessage by (simp add: ReadFull_append)
next
  case (CompleteMessage n d)
  then obtain a b where "m0 = CompleteMessage a b" using assms(2) by (cases m0) auto
  then show ?thesis using CompleteMessage by (simp add: ReadFull_append)
next
  case (ErrorMessage err)
  then obtain a where "m0 = ErrorMessage a" using assms(2) by (cases m0) auto
  then show ?thesis using ErrorMessage assms(1)
    by (simp add: readString_writeString [of err rest])
qed

text \<open>
  Claim C1, as the code has it: a message whose strings are shorter than \<open>2^16\<close> bytes and
  whose data is shorter than \<open>2^32\<close> bytes is recovered by \<^verbatim>\<open>Decode\<close> (on a receiver of
  the same type) from the bytes its \<^verbatim>\<open>Encode\<close> wrote, leaving what follows them unread;
  and when the encoding is shorter than \<open>2^32\<close> bytes, \<^verbatim>\<open>ReadMessage\<close> recovers from the
  bytes of \<^verbatim>\<open>WriteMessage\<close> the message type and the payload, from which \<^verbatim>\<open>Decode\<close>
  recovers the message.
\<close>

theorem codec_round_trip:
  assumes "fitsWire m" and "sameType m0 m"
  shows "Decode m0 (Encode m @ rest) = Inr (m, rest)
         \<and> (length (Encode m) < 2 ^ 32 \<longrightarrow>
              ReadMessage (WriteMessage t m @ rest) = Inr (t, Encode m, rest)
              \<and> Decode m0 (Encode m) = Inr (m, []))"
  using Decode_Encode [OF assms, of rest] Decode_Encode [OF assms, of "[]"]
        ReadMessage_WriteMessage [of m t rest]
  by simp

text \<open>
  Claim C1, witness: the Start message of \<^verbatim>\<open>TestReadMessage\<close> (1024 bytes, download).
\<close>

theorem codec_round_trip_witness:
  "fitsWire (StartMessage 1024 DirectionDownload)
   \<and> sameType (StartMessage 0 []) (StartMessage 1024 DirectionDownload)
   \<and> Decode (StartMessage 0 []) (Encode (StartMessage 1024 DirectionDownload))
       = Inr (StartMessage 1024 DirectionDownload, [])
   \<and> length (Encode (StartMessage 1024 DirectionDownload)) < 2 ^ 32
   \<and> ReadMessage (WriteMessage MsgStart (StartMessage 1024 DirectionDownload))
       = Inr (MsgStart, Encode (StartMessage 1024 DirectionDownload), [])"
  using codec_round_trip [of "StartMessage 1024 DirectionDownload" "StartMessage 0 []" "[]" MsgStart]
  by (simp add: DirectionDownload_def writeString_def)

text \<open>
  Claim C1 as stated, for every message, fails: the length of a 65536-byte error string is
  written as \<^verbatim>\<open>uint16(65536) = 0\<close>, so \<^verbatim>\<open>Decode\<close> returns the empty string and leaves the
  65536 bytes unread.
\<close>

theorem long_string_round_trip_counterexample:
  "Decode (ErrorMessage []) (Encode (ErrorMessage (replicate 65536 0)))
     = Inr (ErrorMessage [], replicate 65536 0)
   \<and> ErrorMessage [] \<noteq> ErrorMessage (replicate 65536 0)"
proof -
  have "(65536 :: u16) = 0"
    by simp
  then have p: "PutUint16 65536 = PutUint16 0"
    by (rule arg_cong)
  have r: "ReadFull 2 (PutUint16 0 @ replicate 65536 0) = Inr (PutUint16 0, replicate 65536 0)"
    by (rule ReadFull_append) simp
  show ?thesis
    by (simp add: readString_def writeString_def p r)
qed








section \<open>Properties of the token bucket\<close>











lemma Time_Sub_add: "0 \<le> w \<Longrightarrow> w \<le> maxDuration \<Longrightarrow> Time_Sub (now + w) now = w"
  by (simp add: Time_Sub_def minDuration_def maxDuration_def)

lemma Take_wait_positive:
  assumes "Take ovf now n tb = (w, tb')" and "w \<noteq> 0"
  shows "tb' = tb\<lparr>lastUpdate := now, tokens := 0\<rparr>"
  using assms by (auto simp: Take_def Let_def split: if_splits)

lemma Take_enough:
  assumes "of_int n \<le> tokens tb + Seconds (Time_Sub now (lastUpdate tb)) * rate tb"
    and "of_int n \<le> maxTokens tb"
  shows "fst (Take ovf now n tb) = 0"
  using assms by (auto simp: Take_def Let_def)





text \<open>
  Claim C4, as the code has it: when \<^verbatim>\<open>Take(n)\<close> on a bucket of positive rate returns a
  wait \<open>w > 0\<close> and the next call comes exactly \<open>w\<close> later, that call \<^verbatim>\<open>Take(m)\<close>
  returns 0 for every \<open>m\<close> with \<open>m \<le> rate * w\<close> (\<open>w\<close> in seconds) and
  \<open>m \<le> maxTokens\<close>: the refill is capped at \<open>maxTokens\<close>, one second of burst.
\<close>

theorem Take_after_wait:
  assumes "0 < rate tb" and "Take ovf now n tb = (w, tb')" and "0 < w" and "w \<le> maxDuration"
    and "of_int m \<le> rate tb * Seconds w" and "of_int m \<le> maxTokens tb"
  shows "fst (Take ovf (now + w) m tb') = 0"
proof -
  have tb': "tb' = tb\<lparr>lastUpdate := now, tokens := 0\<rparr>"
    using Take_wait_positive [OF assms(2)] assms(3) by simp
  have s: "Time_Sub (now + w) now = w"
    using Time_Sub_add [of w now] assms(3,4) by simp
  have "of_int m \<le> tokens tb' + Seconds (Time_Sub (now + w) (lastUpdate tb')) * rate tb'"
    using assms(5) by (simp add: tb' s mult.commute)
  moreover have "of_int m \<le> maxTokens tb'"
    using assms(6) by (simp add: tb')
  ultimately show ?thesis
    by (rule Take_enough)
qed

text \<open>
  Claim C4, witness: at 100 bytes per second a full bucket asked for 150 tokens returns a
  wait of half a second, after which 50 tokens are there.
\<close>

theorem Take_after_wait_witness:
  "Take 0 0 150 (NewTokenBucket 0 100) = (500000000, (NewTokenBucket 0 100)\<lparr>tokens := 0\<rparr>)
   \<and> fst (Take 0 (0 + 500000000) 50 ((NewTokenBucket 0 100)\<lparr>tokens := 0\<rparr>)) = 0"
proof -
  have t: "Take 0 0 150 (NewTokenBucket 0 100) = (500000000, (NewTokenBucket 0 100)\<lparr>tokens := 0\<rparr>)"
    by (simp add: Take_def NewTokenBucket_def Time_Sub_def Seconds_def Second_def
        Duration_of_float_def truncate_float_def minDuration_def maxDuration_def)
  have "fst (Take 0 (0 + 500000000) 50 ((NewTokenBucket 0 100)\<lparr>tokens := 0\<rparr>)) = 0"
    by (rule Take_after_wait [OF _ t])
       (simp_all add: NewTokenBucket_def maxDuration_def Seconds_def)
  with t show ?thesis by simp
qed

text \<open>
  Claim C4 as stated, with \<open>m \<le> rate * w\<close> alone, fails: at 100 bytes per second
  \<^verbatim>\<open>Take(1000)\<close> on the full bucket returns a wait of 9 s; 9 s later the bucket holds its
  cap of 100 tokens, not 900, and \<^verbatim>\<open>Take(900)\<close> returns a wait of 8 s.
\<close>

theorem Take_after_long_wait_counterexample:
  "fst (Take 0 0 1000 (NewTokenBucket 0 100)) = 9000000000
   \<and> (900 :: rat) \<le> rate (NewTokenBucket 0 100) * Seconds 9000000000
   \<and> fst (Take 0 (0 + 9000000000) 900 (snd (Take 0 0 1000 (NewTokenBucket 0 100))))
       = 8000000000"
  by (simp add: Take_def NewTokenBucket_def Time_Sub_def Seconds_def Second_def
      Duration_of_float_def truncate_float_def minDuration_def maxDuration_def)




section \<open>Properties of the chaos writer\<close>



lemma NewChaosWriterWithRng_no_bucket:
  "BandwidthBps cf = 0 \<Longrightarrow> bucket (NewChaosWriterWithRng t0 cf) = None"
  by (simp add: NewChaosWriterWithRng_def)

text \<open>
  Claim C10: a writer whose configuration is all zero, and whose bucket is the one
  \<^verbatim>\<open>NewChaosWriterWithRng\<close> makes for that configuration (none), performs on every
  \<^verbatim>\<open>Write(p)\<close> exactly one write of \<open>p\<close> to the sink and no sleep, and returns the
  sink's \<^verbatim>\<open>(n, err)\<close>; only its statistics change, so the same holds for the next write.
\<close>

theorem zero_config_is_pass_through:
  assumes "PacketLossPercent cf = 0" and "Latency cf = 0" and "Jitter cf = 0"
    and "BandwidthBps cf = 0"
    and "cfg c = cf" and "bucket c = bucket (NewChaosWriterWithRng t0 cf)"
  shows "ChaosWriter_Write ovf env p c
         = Inr (sinkResult env,
                c\<lparr>stats := (stats c)\<lparr>TotalWrites := TotalWrites (stats c) + 1,
                                       TotalBytes := TotalBytes (stats c) + of_nat (length p),
                                       ActualBytes := ActualBytes (stats c)
                                                      + of_int (fst (sinkResult env))\<rparr>\<rparr>,
                [UnderlyingWrite p])"
  using assms
  by (simp add: ChaosWriter_Write_def lossDrop_def bandwidthWait_def latencyDelay_def
      sleepIfPositive_def NewChaosWriterWithRng_no_bucket)

text \<open>
  Claim C10, witness: the sink takes two of three bytes and reports an error.
\<close>

theorem zero_config_is_pass_through_witness:
  "ChaosWriter_Write 0
     \<lparr>float64Draw = 0, int63nDraw = (\<lambda>n. 0), clock = 7, sinkResult = (2, Some ())\<rparr>
     [1, 2, 3] (NewChaosWriterWithRng 0 zeroConfig)
   = Inr ((2, Some ()),
          (NewChaosWriterWithRng 0 zeroConfig)
            \<lparr>stats := \<lparr>TotalWrites = 1, DroppedWrites = 0, TotalBytes = 3, ActualBytes = 2\<rparr>\<rparr>,
          [UnderlyingWrite [1, 2, 3]])"
  using zero_config_is_pass_through [of zeroConfig "NewChaosWriterWithRng 0 zeroConfig" 0 0
      "\<lparr>float64Draw = 0, int63nDraw = (\<lambda>n. 0), clock = 7, sinkResult = (2, Some ())\<rparr>" "[1, 2, 3]"]
  by (simp add: zeroConfig_def NewChaosWriterWithRng_def)

section \<open>Properties of the benchmark result and of the online flag\<close>

text \<open>
  Claim C9: \<^verbatim>\<open>CalculateThroughput\<close> leaves the result as it is when \<^verbatim>\<open>DurationMs\<close> is
  not positive; when it is positive the divisor \<^verbatim>\<open>durationSec\<close> is not zero; and in every
  case no field other than \<^verbatim>\<open>ThroughputBps\<close> and \<^verbatim>\<open>ThroughputMbps\<close> changes.
\<close>

theorem CalculateThroughput_guarded:
  "(DurationMs r \<le> 0 \<longrightarrow> CalculateThroughput r = r)
   \<and> (0 < DurationMs r \<longrightarrow> durationSec r \<noteq> 0)
   \<and> CalculateThroughput r
       = r\<lparr>ThroughputBps := ThroughputBps (CalculateThroughput r),
            ThroughputMbps := ThroughputMbps (CalculateThroughput r)\<rparr>"
  by (simp add: CalculateThroughput_def durationSec_def)

text \<open>
  Claim C9, witness: 1000 bytes in 2000 ms give 500 bytes per second and 0.004 Mbit/s;
  with a duration of 0 ms nothing changes.
\<close>

theorem CalculateThroughput_guarded_witness:
  "CalculateThroughput (exampleResult\<lparr>DurationMs := 0\<rparr>) = exampleResult\<lparr>DurationMs := 0\<rparr>
   \<and> durationSec exampleResult \<noteq> 0
   \<and> CalculateThroughput exampleResult = exampleResult\<lparr>ThroughputBps := 500, ThroughputMbps := 1 / 250\<rparr>"
  using CalculateThroughput_guarded [of "exampleResult\<lparr>DurationMs := 0\<rparr>"] CalculateThroughput_guarded [of exampleResult]
  by (simp add: exampleResult_def CalculateThroughput_def durationSec_def)

text \<open>
  Claim C7: the online flag depends on \<^verbatim>\<open>LastSeen\<close> and the current time only, and it
  is set exactly when \<open>now - LastSeen\<close> is strictly less than two minutes (in
  nanoseconds); the saturation of \<^verbatim>\<open>Sub\<close> does not change that.
\<close>

theorem online_iff_within_two_minutes:
  "online now LastSeen \<longleftrightarrow> now - LastSeen < 2 * 60 * 1000000000"
  by (simp add: online_def Time_Sub_def onlineThreshold_def Minute_def Second_def
      minDuration_def maxDuration_def)

section \<open>Properties of the peer route lookup\<close>

lemma withCalls_withCalls: "withCalls a (withCalls b r) = withCalls (a @ b) r"
  by (simp add: withCalls_def)

lemma wrap64_id: "- (2 ^ 63) \<le> x \<Longrightarrow> x < 2 ^ 63 \<Longrightarrow> wrap64 x = x"
  by (simp add: wrap64_def)

lemma retryLoop_failed:
  assumes "\<forall>i. a \<le> i \<and> i < a + j \<longrightarrow> isl (L i)" and "a + j \<le> maxRetries"
    and "0 \<le> b" and "b * 2 ^ j < 2 ^ 63"
  shows "retryLoop m L name a b
         = withCalls (failedAttempts j b) (retryLoop m L name (a + j) (b * 2 ^ j))"
  using assms
proof (induction j arbitrary: a b)
  case 0
  then show ?case by (simp add: withCalls_def)
next
  case (Suc j)
  from Suc.prems(1) have "isl (L a)" by simp
  then obtain e where e: "L a = Inl e" by (cases "L a") auto
  have lt: "a < maxRetries" using Suc.prems(2) by simp
  have b2: "wrap64 (b * 2) = b * 2"
  proof (rule wrap64_id)
    show "- (2 ^ 63) \<le> b * 2" using Suc.prems(3) by simp
    have "b * 2 \<le> b * 2 ^ Suc j"
      using Suc.prems(3) by (simp add: mult_left_mono)
    then show "b * 2 < 2 ^ 63" using Suc.prems(4) by simp
  qed
  have step: "retryLoop m L name a b
        = withCalls [ListPeersCall, SleepCall b] (retryLoop m L name (a + 1) (b * 2))"
    using e lt b2 by (simp add: retryLoop.simps [of m L name a b])
  have "retryLoop m L name (a + 1) (b * 2)
        = withCalls (failedAttempts j (b * 2)) (retryLoop m L name (a + 1 + j) (b * 2 * 2 ^ j))"
    using Suc.prems by (intro Suc.IH) (auto simp: mult.assoc)
  then show ?case
    by (simp add: step withCalls_withCalls mult.assoc)
qed

lemma retryLoop_past: "maxRetries < a \<Longrightarrow> retryLoop m L name a b = (LeftLoop, [])"
  by (simp add: retryLoop.simps [of m L name a b])

lemma retryLoop_last_failed:
  "isl (L maxRetries) \<Longrightarrow> retryLoop m L name maxRetries b = (LeftLoop, [ListPeersCall])"
  by (cases "L maxRetries")
     (simp_all add: retryLoop.simps [of m L name maxRetries b] retryLoop_past withCalls_def)

lemma retryLoop_answered:
  "a \<le> maxRetries \<Longrightarrow> L a = Inr peers \<Longrightarrow>
   retryLoop m L name a b =
     (case find (\<lambda>peer. Name peer = name) peers of
        Some peer \<Rightarrow> (Returned (MeshIP peer), ListPeersCall # foundPeer m peer)
      | None \<Rightarrow> (LeftLoop, [ListPeersCall]))"
  by (simp add: retryLoop.simps [of m L name a b])

lemma retryLoop_all_failed:
  assumes "\<forall>i. 1 \<le> i \<and> i \<le> 5 \<longrightarrow> isl (L i)"
  shows "retryLoop m L name 1 (500 * Millisecond)
         = (LeftLoop, failedAttempts 4 (500 * Millisecond) @ [ListPeersCall])"
proof -
  have "retryLoop m L name 1 (500 * Millisecond)
        = withCalls (failedAttempts 4 (500 * Millisecond))
            (retryLoop m L name (1 + 4) (500 * Millisecond * 2 ^ 4))"
    using assms by (intro retryLoop_failed) (simp_all add: maxRetries_def Millisecond_def)
  moreover have "retryLoop m L name (1 + 4) (500 * Millisecond * 2 ^ 4) = (LeftLoop, [ListPeersCall])"
    using assms retryLoop_last_failed [of L m name] by (simp add: maxRetries_def)
  ultimately show ?thesis by (simp add: withCalls_def)
qed

lemma retryLoop_answered_at:
  assumes "1 \<le> k" and "k \<le> 5" and "\<forall>i. 1 \<le> i \<and> i < k \<longrightarrow> isl (L i)" and "L k = Inr peers"
  shows "retryLoop m L name 1 (500 * Millisecond)
         = withCalls (failedAttempts (k - 1) (500 * Millisecond))
             (case find (\<lambda>peer. Name peer = name) peers of
                Some peer \<Rightarrow> (Returned (MeshIP peer), ListPeersCall # foundPeer m peer)
              | None \<Rightarrow> (LeftLoop, [ListPeersCall]))"
proof -
  have "(500 * Millisecond) * 2 ^ (k - 1) \<le> (500 * Millisecond) * 2 ^ 4"
    using assms(2) by (intro mult_left_mono power_increasing) (simp_all add: Millisecond_def)
  then have bound: "(500 * Millisecond) * 2 ^ (k - 1) < 2 ^ 63"
    by (simp add: Millisecond_def)
  have "retryLoop m L name 1 (500 * Millisecond)
        = withCalls (failedAttempts (k - 1) (500 * Millisecond))
            (retryLoop m L name (1 + (k - 1)) (500 * Millisecond * 2 ^ (k - 1)))"
    using assms(1-3) bound by (intro retryLoop_failed) (simp_all add: maxRetries_def Millisecond_def)
  moreover have "1 + (k - 1) = k" using assms(1) by simp
  ultimately show ?thesis
    using retryLoop_answered [of k L peers m name] assms(2,4) by (simp add: maxRetries_def)
qed

lemma failedAttempts_4:
  "failedAttempts 4 b
   = [ListPeersCall, SleepCall b, ListPeersCall, SleepCall (b * 2),
      ListPeersCall, SleepCall (b * 4), ListPeersCall, SleepCall (b * 8)]"
  by (simp add: numeral_eq_Suc)

lemma ensurePeerRoute_LeftLoop:
  "client m = Some L \<Longrightarrow> retryLoop m L name 1 (500 * Millisecond) = (LeftLoop, calls) \<Longrightarrow>
   ensurePeerRoute m name = (fst (fromCache m name), calls @ snd (fromCache m name))"
  by (simp add: ensurePeerRoute_def)

lemma ensurePeerRoute_Returned:
  "client m = Some L \<Longrightarrow> retryLoop m L name 1 (500 * Millisecond) = (Returned ip, calls) \<Longrightarrow>
   ensurePeerRoute m name = (ip, calls)"
  by (simp add: ensurePeerRoute_def)

text \<open>
  Claim C6, as the code has it. Without a directory client \<^verbatim>\<open>ensurePeerRoute\<close> only
  consults the cache. With a client, when all five \<^verbatim>\<open>ListPeers\<close> calls fail it sleeps
  500 ms, 1 s, 2 s and 4 s after the first four (no sleep follows the fifth) and then
  consults the cache. When the \<open>k\<close>-th call is the first to answer (\<open>k \<le> 5\<close>, after
  \<open>k - 1\<close> failed calls with their sleeps) and lists the peer, it adds the route, caches
  the mesh IP, installs the public key if the key is not empty, the SSH transport is set
  and the key decodes, and returns the mesh IP without consulting the cache; when the
  answer does not list the peer it makes no further call to the directory and consults the
  cache.
\<close>

theorem ensurePeerRoute_retry_and_fallback:
  "(client m = None \<longrightarrow> ensurePeerRoute m name = fromCache m name)
   \<and> (client m = Some L \<and> (\<forall>i. 1 \<le> i \<and> i \<le> 5 \<longrightarrow> isl (L i)) \<longrightarrow>
        ensurePeerRoute m name
          = (fst (fromCache m name),
             [ListPeersCall, SleepCall (500 * Millisecond),
              ListPeersCall, SleepCall (1000 * Millisecond),
              ListPeersCall, SleepCall (2000 * Millisecond),
              ListPeersCall, SleepCall (4000 * Millisecond),
              ListPeersCall] @ snd (fromCache m name)))
   \<and> (client m = Some L \<and> 1 \<le> k \<and> k \<le> 5 \<and> (\<forall>i. 1 \<le> i \<and> i < k \<longrightarrow> isl (L i))
        \<and> L k = Inr peers \<longrightarrow>
        (case find (\<lambda>peer. Name peer = name) peers of
           Some peer \<Rightarrow>
             ensurePeerRoute m name
               = (MeshIP peer,
                  failedAttempts (k - 1) (500 * Millisecond)
                  @ [ListPeersCall, AddRouteCall (MeshIP peer) (Name peer),
                     CachePeerCall (Name peer) (MeshIP peer)]
                  @ (if PublicKey peer \<noteq> [] \<and> SSHTransport m
                     then (case DecodePublicKey m (PublicKey peer) of
                             Inl err \<Rightarrow> []
                           | Inr pubKey \<Rightarrow> [AddAuthorizedKeyCall pubKey])
                     else []))
         | None \<Rightarrow>
             ensurePeerRoute m name
               = (fst (fromCache m name),
                  failedAttempts (k - 1) (500 * Millisecond) @ [ListPeersCall]
                  @ snd (fromCache m name))))"
proof (intro conjI impI)
  assume "client m = None"
  then show "ensurePeerRoute m name = fromCache m name"
    by (simp add: ensurePeerRoute_def)
next
  assume a: "client m = Some L \<and> (\<forall>i. 1 \<le> i \<and> i \<le> 5 \<longrightarrow> isl (L i))"
  then have "retryLoop m L name 1 (500 * Millisecond)
         = (LeftLoop, failedAttempts 4 (500 * Millisecond) @ [ListPeersCall])"
    by (intro retryLoop_all_failed) simp
  with a have "ensurePeerRoute m name
      = (fst (fromCache m name),
         (failedAttempts 4 (500 * Millisecond) @ [ListPeersCall]) @ snd (fromCache m name))"
    by (intro ensurePeerRoute_LeftLoop) simp_all
  then show "ensurePeerRoute m name
          = (fst (fromCache m name),
             [ListPeersCall, SleepCall (500 * Millisecond),
              ListPeersCall, SleepCall (1000 * Millisecond),
              ListPeersCall, SleepCall (2000 * Millisecond),
              ListPeersCall, SleepCall (4000 * Millisecond),
              ListPeersCall] @ snd (fromCache m name))"
    by (simp add: failedAttempts_4)
next
  assume a: "client m = Some L \<and> 1 \<le> k \<and> k \<le> 5 \<and> (\<forall>i. 1 \<le> i \<and> i < k \<longrightarrow> isl (L i))
        \<and> L k = Inr peers"
  then have r: "retryLoop m L name 1 (500 * Millisecond)
         = withCalls (failedAttempts (k - 1) (500 * Millisecond))
             (case find (\<lambda>peer. Name peer = name) peers of
                Some peer \<Rightarrow> (Returned (MeshIP peer), ListPeersCall # foundPeer m peer)
              | None \<Rightarrow> (LeftLoop, [ListPeersCall]))"
    by (intro retryLoop_answered_at) simp_all
  show "case find (\<lambda>peer. Name peer = name) peers of
           Some peer \<Rightarrow>
             ensurePeerRoute m name
               = (MeshIP peer,
                  failedAttempts (k - 1) (500 * Millisecond)
                  @ [ListPeersCall, AddRouteCall (MeshIP peer) (Name peer),
                     CachePeerCall (Name peer) (MeshIP peer)]
                  @ (if PublicKey peer \<noteq> [] \<and> SSHTransport m
                     then (case DecodePublicKey m (PublicKey peer) of
                             Inl err \<Rightarrow> []
                           | Inr pubKey \<Rightarrow> [AddAuthorizedKeyCall pubKey])
                     else []))
         | None \<Rightarrow>
             ensurePeerRoute m name
               = (fst (fromCache m name),
                  failedAttempts (k - 1) (500 * Millisecond) @ [ListPeersCall]
                  @ snd (fromCache m name))"
  proof (cases "find (\<lambda>peer. Name peer = name) peers")
    case None
    with r have "retryLoop m L name 1 (500 * Millisecond)
        = (LeftLoop, failedAttempts (k - 1) (500 * Millisecond) @ [ListPeersCall])"
      by (simp add: withCalls_def)
    with a have "ensurePeerRoute m name
        = (fst (fromCache m name),
           (failedAttempts (k - 1) (500 * Millisecond) @ [ListPeersCall]) @ snd (fromCache m name))"
      by (intro ensurePeerRoute_LeftLoop) simp_all
    with None show ?thesis by simp
  next
    case (Some peer)
    with r have "retryLoop m L name 1 (500 * Millisecond)
        = (Returned (MeshIP peer),
           failedAttempts (k - 1) (500 * Millisecond) @ ListPeersCall # foundPeer m peer)"
      by (simp add: withCalls_def)
    with a have "ensurePeerRoute m name
        = (MeshIP peer,
           failedAttempts (k - 1) (500 * Millisecond) @ ListPeersCall # foundPeer m peer)"
      by (intro ensurePeerRoute_Returned) simp_all
    with Some show ?thesis by (simp add: foundPeer_def)
  qed
qed

text \<open>
  Claim C6, witness: no client; five failures; two failures and then an answer listing
  \<^verbatim>\<open>bob\<close>; an answer that does not list \<^verbatim>\<open>bob\<close>.
\<close>

theorem ensurePeerRoute_retry_and_fallback_witness:
  "ensurePeerRoute (exampleNode None) ''bob''
     = (''10.99.0.7'', [GetCachedCall ''bob'', AddRouteCall ''10.99.0.7'' ''bob''])
   \<and> ensurePeerRoute (exampleNode (Some (\<lambda>i. Inl ()))) ''bob''
     = (''10.99.0.7'',
        [ListPeersCall, SleepCall 500000000, ListPeersCall, SleepCall 1000000000,
         ListPeersCall, SleepCall 2000000000, ListPeersCall, SleepCall 4000000000,
         ListPeersCall, GetCachedCall ''bob'', AddRouteCall ''10.99.0.7'' ''bob''])
   \<and> ensurePeerRoute (exampleNode (Some (\<lambda>i. if i < 3 then Inl () else Inr [peerBob]))) ''bob''
     = (''10.99.0.2'',
        [ListPeersCall, SleepCall 500000000, ListPeersCall, SleepCall 1000000000,
         ListPeersCall, AddRouteCall ''10.99.0.2'' ''bob'', CachePeerCall ''bob'' ''10.99.0.2'',
         AddAuthorizedKeyCall ''key''])
   \<and> ensurePeerRoute (exampleNode (Some (\<lambda>i. Inr []))) ''bob''
     = (''10.99.0.7'',
        [ListPeersCall, GetCachedCall ''bob'', AddRouteCall ''10.99.0.7'' ''bob''])"
proof -
  have f2: "failedAttempts 2 b = [ListPeersCall, SleepCall b, ListPeersCall, SleepCall (b * 2)]"
    for b and dummy :: "string call"
    by (simp add: numeral_eq_Suc)
  have c: "fromCache (exampleNode x) ''bob''
           = (''10.99.0.7'', [GetCachedCall ''bob'', AddRouteCall ''10.99.0.7'' ''bob''])" for x
    by (simp add: fromCache_def exampleNode_def)
  have 1: "ensurePeerRoute (exampleNode None) ''bob''
     = (''10.99.0.7'', [GetCachedCall ''bob'', AddRouteCall ''10.99.0.7'' ''bob''])"
    using ensurePeerRoute_retry_and_fallback [of "exampleNode None" "''bob''"]
    by (simp add: c) (simp add: exampleNode_def)
  have 2: "ensurePeerRoute (exampleNode (Some (\<lambda>i. Inl ()))) ''bob''
     = (''10.99.0.7'',
        [ListPeersCall, SleepCall 500000000, ListPeersCall, SleepCall 1000000000,
         ListPeersCall, SleepCall 2000000000, ListPeersCall, SleepCall 4000000000,
         ListPeersCall, GetCachedCall ''bob'', AddRouteCall ''10.99.0.7'' ''bob''])"
    using ensurePeerRoute_retry_and_fallback [of "exampleNode (Some (\<lambda>i. Inl ()))" "''bob''" "\<lambda>i. Inl ()"]
    by (simp add: c Millisecond_def) (simp add: exampleNode_def)
  have 3: "ensurePeerRoute (exampleNode (Some (\<lambda>i. if i < 3 then Inl () else Inr [peerBob]))) ''bob''
     = (''10.99.0.2'',
        [ListPeersCall, SleepCall 500000000, ListPeersCall, SleepCall 1000000000,
         ListPeersCall, AddRouteCall ''10.99.0.2'' ''bob'', CachePeerCall ''bob'' ''10.99.0.2'',
         AddAuthorizedKeyCall ''key''])"
    using ensurePeerRoute_retry_and_fallback
      [of "exampleNode (Some (\<lambda>i. if i < 3 then Inl () else Inr [peerBob]))" "''bob''"
          "\<lambda>i. if i < 3 then Inl () else Inr [peerBob]" 3 "[peerBob]"]
    by (simp add: c Millisecond_def f2 peerBob_def) (simp add: exampleNode_def)
  have 4: "ensurePeerRoute (exampleNode (Some (\<lambda>i. Inr []))) ''bob''
     = (''10.99.0.7'',
        [ListPeersCall, GetCachedCall ''bob'', AddRouteCall ''10.99.0.7'' ''bob''])"
    using ensurePeerRoute_retry_and_fallback
      [of "exampleNode (Some (\<lambda>i. Inr []))" "''bob''" "\<lambda>i. Inr []" 1 "[]"]
    by (simp add: c) (simp add: exampleNode_def)
  from 1 2 3 4 show ?thesis by simp
qed

text \<open>
  Claim C6 as stated fails: after five failed attempts the sleeps were 500 ms, 1 s, 2 s
  and 4 s, and no sleep of 8 s was made; and the cache is consulted not only after five
  failures, but also after a first answer that does not list the peer, and without any
  directory call when there is no client.
\<close>

theorem no_eight_second_sleep_counterexample:
  "snd (ensurePeerRoute (exampleNode (Some (\<lambda>i. Inl ()))) ''bob'')
     = [ListPeersCall, SleepCall 500000000, ListPeersCall, SleepCall 1000000000,
        ListPeersCall, SleepCall 2000000000, ListPeersCall, SleepCall 4000000000,
        ListPeersCall, GetCachedCall ''bob'', AddRouteCall ''10.99.0.7'' ''bob'']
   \<and> snd (ensurePeerRoute (exampleNode (Some (\<lambda>i. Inr []))) ''bob'')
     = [ListPeersCall, GetCachedCall ''bob'', AddRouteCall ''10.99.0.7'' ''bob'']
   \<and> snd (ensurePeerRoute (exampleNode None) ''bob'')
     = [GetCachedCall ''bob'', AddRouteCall ''10.99.0.7'' ''bob'']"
proof -
  have c: "fromCache (exampleNode x) ''bob''
           = (''10.99.0.7'', [GetCachedCall ''bob'', AddRouteCall ''10.99.0.7'' ''bob''])" for x
    by (simp add: fromCache_def exampleNode_def)
  have "retryLoop m (\<lambda>i. Inl ()) ''bob'' 1 (500 * Millisecond)
         = (LeftLoop, failedAttempts 4 (500 * Millisecond) @ [ListPeersCall])"
    for m :: "(unit, string) MeshNode"
    by (intro retryLoop_all_failed) simp
  then have "ensurePeerRoute (exampleNode (Some (\<lambda>i. Inl ()))) ''bob''
      = (fst (fromCache (exampleNode (Some (\<lambda>i. Inl ()))) ''bob''),
         (failedAttempts 4 (500 * Millisecond) @ [ListPeersCall])
         @ snd (fromCache (exampleNode (Some (\<lambda>i. Inl ()))) ''bob''))"
    by (intro ensurePeerRoute_LeftLoop) (simp_all add: exampleNode_def)
  then have 1: "snd (ensurePeerRoute (exampleNode (Some (\<lambda>i. Inl ()))) ''bob'')
     = [ListPeersCall, SleepCall 500000000, ListPeersCall, SleepCall 1000000000,
        ListPeersCall, SleepCall 2000000000, ListPeersCall, SleepCall 4000000000,
        ListPeersCall, GetCachedCall ''bob'', AddRouteCall ''10.99.0.7'' ''bob'']"
    by (simp add: c failedAttempts_4 Millisecond_def)
  have "retryLoop m (\<lambda>i. Inr []) ''bob'' 1 b = (LeftLoop, [ListPeersCall])"
    for m :: "(unit, string) MeshNode" and b
    using retryLoop_answered [of 1 "\<lambda>i. Inr []" "[]" m "''bob''" b]
    by (simp add: maxRetries_def)
  then have "ensurePeerRoute (exampleNode (Some (\<lambda>i. Inr []))) ''bob''
      = (fst (fromCache (exampleNode (Some (\<lambda>i. Inr []))) ''bob''),
         [ListPeersCall] @ snd (fromCache (exampleNode (Some (\<lambda>i. Inr []))) ''bob''))"
    by (intro ensurePeerRoute_LeftLoop) (simp_all add: exampleNode_def)
  then have 2: "snd (ensurePeerRoute (exampleNode (Some (\<lambda>i. Inr []))) ''bob'')
     = [ListPeersCall, GetCachedCall ''bob'', AddRouteCall ''10.99.0.7'' ''bob'']"
    by (simp add: c)
  have 3: "snd (ensurePeerRoute (exampleNode None) ''bob'')
     = [GetCachedCall ''bob'', AddRouteCall ''10.99.0.7'' ''bob'']"
    using c [of None] by (simp add: ensurePeerRoute_def exampleNode_def)
  from 1 2 3 show ?thesis by simp
qed

end
